theory Spec2Isabelle
  imports Main
begin

section \<open>MamoDataset: the data model\<close>

text \<open>
  The module \<^verbatim>\<open>dataloader/mamo_dataset.py\<close> defines one class, \<^verbatim>\<open>MamoDataset\<close>, with
  a constructor and the two protocol methods \<^verbatim>\<open>__len__\<close> and \<^verbatim>\<open>__getitem__\<close>.

  A sample (one row of the nD array along its first axis) is a value of an arbitrary
  type \<open>'a\<close>; an array, and the tensor made from it, is the list of its rows. The
  optional constructor arguments are \<open>option\<close> values, \<open>None\<close> standing for Python's
  \<^verbatim>\<open>None\<close>. The index of \<^verbatim>\<open>__getitem__\<close> is an integer, as its docstring says
  (\<^verbatim>\<open>index: An integer that represents an index in the dataset\<close>); Python integers
  are unbounded, hence \<open>int\<close>. The class raises \<^verbatim>\<open>ValueError\<close> itself and lets the
  errors of the tensor through: \<^verbatim>\<open>IndexError\<close>, and the \<^verbatim>\<open>ValueError\<close> of an index
  that does not fit the tensor library's 64-bit integers.
\<close>

datatype error =
    ValueError string
  | IndexError

text \<open>
  The object: the two attributes \<^verbatim>\<open>_input_data\<close> and \<^verbatim>\<open>_output_data\<close> that the
  constructor assigns (an identifier cannot start with an underscore here, so the fields
  carry the prefix \<open>self\<close>).
\<close>

record 'a MamoDataset =
  self_input_data :: "'a list"
  self_output_data :: "'a list option"

subsection \<open>The library operations the class calls\<close>

text \<open>
  \<^verbatim>\<open>torch.from_numpy\<close> turns an array into a tensor with the same rows in the same
  order.
\<close>

definition from_numpy :: "'a list \<Rightarrow> 'a list" where
  "from_numpy a = a"

text \<open>
  \<^verbatim>\<open>tensor[index]\<close> for an integer index, along the first axis. A negative index counts
  from the end. The library unpacks the index into a signed 64-bit integer: an index
  below \<open>-2\<^sup>6\<^sup>3\<close> or from \<open>2\<^sup>6\<^sup>3\<close> on raises \<^verbatim>\<open>ValueError\<close> (an overflow), and any
  other index that is no position of the tensor raises \<^verbatim>\<open>IndexError\<close>.

  A tensor has fewer than \<open>2\<^sup>6\<^sup>3\<close> rows (its sizes are 64-bit integers too), so an index
  that overflows is never one of its positions, and it makes no difference which of the
  two tests comes first: \<open>tensor_getitem_unpack_first\<close> below. With the position tested
  first, what is said about the positions of a list needs no bound on its length.
\<close>

definition tensor_getitem :: "'a list \<Rightarrow> int \<Rightarrow> error + 'a" where
  "tensor_getitem t index =
     (let n = int (length t);
          pos = (if index < 0 then index + n else index)
      in if 0 \<le> pos \<and> pos < n then Inr (t ! nat pos)
         else if index < - (2 ^ 63) \<or> 2 ^ 63 \<le> index
         then Inl (ValueError ''Overflow when unpacking long long'')
         else Inl IndexError)"

subsection \<open>The constructor\<close>

text \<open>
  \<^verbatim>\<open>__init__(self, input_data, output_data=None)\<close>: the checks in the order of the
  source. A raise leaves the caller without an object: the result is \<open>Inl\<close>.
\<close>

definition MamoDataset_init :: "'a list option \<Rightarrow> 'a list option \<Rightarrow> error + 'a MamoDataset" where
  "MamoDataset_init input_data output_data =
     (case input_data of
        None \<Rightarrow> Inl (ValueError ''The input data is None, please give a valid input data.'')
      | Some inp \<Rightarrow>
          (case output_data of
             Some out \<Rightarrow>
               if length inp \<noteq> length out
               then Inl (ValueError
                 ''The length of the input data must match the length of the output data!'')
               else Inr \<lparr>self_input_data = from_numpy inp,
                         self_output_data = Some (from_numpy out)\<rparr>
           | None \<Rightarrow> Inr \<lparr>self_input_data = from_numpy inp, self_output_data = None\<rparr>))"

subsection \<open>The methods\<close>

text \<open>
  A method takes the object and returns its result together with the object after the
  call. Neither body assigns to an attribute, so both hand the object back as it came.
\<close>

definition MamoDataset_len :: "'a MamoDataset \<Rightarrow> nat \<times> 'a MamoDataset" where
  "MamoDataset_len self = (length (self_input_data self), self)"

definition MamoDataset_getitem ::
    "'a MamoDataset \<Rightarrow> int \<Rightarrow> (error + 'a \<times> 'a) \<times> 'a MamoDataset" where
  "MamoDataset_getitem self index =
     (case tensor_getitem (self_input_data self) index of
        Inl e \<Rightarrow> (Inl e, self)
      | Inr x \<Rightarrow>
          (case self_output_data self of
             None \<Rightarrow> (Inr (x, x), self)
           | Some out \<Rightarrow>
               (case tensor_getitem out index of
                  Inl e \<Rightarrow> (Inl e, self)
                | Inr y \<Rightarrow> (Inr (x, y), self))))"

subsection \<open>The object over its lifetime\<close>

text \<open>
  The class has no other method, so a client can do two things with an object: ask for
  its length and ask for an item. A lifetime is a list of such calls, each made on the
  object the previous call left.
\<close>

datatype operation = Call_len | Call_getitem int

fun perform :: "'a MamoDataset \<Rightarrow> operation \<Rightarrow> 'a MamoDataset" where
  "perform self Call_len = snd (MamoDataset_len self)"
| "perform self (Call_getitem index) = snd (MamoDataset_getitem self index)"

fun lifetime :: "'a MamoDataset \<Rightarrow> operation list \<Rightarrow> 'a MamoDataset" where
  "lifetime self [] = self"
| "lifetime self (c # cs) = lifetime (perform self c) cs"

text \<open>
  The length check of the constructor, as a property of an object: stored outputs have
  the length of the stored inputs.
\<close>

definition outputs_match :: "'a MamoDataset \<Rightarrow> bool" where
  "outputs_match self =
     (case self_output_data self of
        None \<Rightarrow> True
      | Some out \<Rightarrow> length out = length (self_input_data self))"

section \<open>Basic facts\<close>

subsection \<open>Indexing a tensor\<close>

lemma tensor_getitem_nonneg:
  "0 \<le> i \<Longrightarrow> i < int (length t) \<Longrightarrow> tensor_getitem t i = Inr (t ! nat i)"
  by (simp add: tensor_getitem_def)

lemma tensor_getitem_negative:
  "- int (length t) \<le> i \<Longrightarrow> i < 0 \<Longrightarrow> tensor_getitem t i = Inr (t ! nat (int (length t) + i))"
  by (simp add: tensor_getitem_def Let_def add.commute)

lemma tensor_getitem_outside:
  "- (2 ^ 63) \<le> i \<Longrightarrow> i < 2 ^ 63 \<Longrightarrow> i < - int (length t) \<or> int (length t) \<le> i \<Longrightarrow>
   tensor_getitem t i = Inl IndexError"
  by (auto simp add: tensor_getitem_def Let_def)

lemma tensor_getitem_overflow:
  "int (length t) < 2 ^ 63 \<Longrightarrow> i < - (2 ^ 63) \<or> 2 ^ 63 \<le> i \<Longrightarrow>
   tensor_getitem t i = Inl (ValueError ''Overflow when unpacking long long'')"
  by (auto simp add: tensor_getitem_def Let_def)

lemma tensor_getitem_unpack_first:
  "int (length t) < 2 ^ 63 \<Longrightarrow>
   tensor_getitem t i =
     (if i < - (2 ^ 63) \<or> 2 ^ 63 \<le> i
      then Inl (ValueError ''Overflow when unpacking long long'')
      else let n = int (length t);
               pos = (if i < 0 then i + n else i)
           in if 0 \<le> pos \<and> pos < n then Inr (t ! nat pos) else Inl IndexError)"
  by (auto simp add: tensor_getitem_def Let_def)

subsection \<open>The methods leave the object as it is\<close>

lemma snd_getitem: "snd (MamoDataset_getitem self index) = self"
  by (simp add: MamoDataset_getitem_def split: sum.splits option.splits)

lemma snd_len: "snd (MamoDataset_len self) = self"
  by (simp add: MamoDataset_len_def)

lemma perform_same: "perform self c = self"
  by (cases c) (simp_all add: snd_getitem snd_len)

lemma lifetime_same: "lifetime self cs = self"
  by (induction cs arbitrary: self) (simp_all add: perform_same)

subsection \<open>What a successful construction stores\<close>

lemma init_Some_fields:
  "MamoDataset_init (Some inputs) output_data = Inr d \<Longrightarrow>
   self_input_data d = inputs \<and> self_output_data d = output_data
   \<and> (\<forall>outputs. output_data = Some outputs \<longrightarrow> length outputs = length inputs)"
  by (auto simp add: MamoDataset_init_def from_numpy_def split: option.splits if_splits)

section \<open>Lookup in range\<close>

text \<open>
  C1. A dataset constructed from an input array of \<open>N\<close> samples and no output array has
  length \<open>N\<close>, and for every integer \<open>i\<close> with \<open>0 \<le> i < N\<close> the item at \<open>i\<close> is the
  pair \<open>(inputs[i], inputs[i])\<close>: the same input sample twice.
\<close>

theorem getitem_without_outputs:
  "\<exists>d. MamoDataset_init (Some inputs) None = Inr d
     \<and> fst (MamoDataset_len d) = length inputs
     \<and> (\<forall>i. 0 \<le> i \<and> i < int (length inputs) \<longrightarrow>
           fst (MamoDataset_getitem d i) = Inr (inputs ! nat i, inputs ! nat i))"
  by (simp add: MamoDataset_init_def MamoDataset_len_def MamoDataset_getitem_def
      from_numpy_def tensor_getitem_nonneg)

text \<open>
  The scenario \<^verbatim>\<open>inputs = [[1,2],[3,4],[5,6]]\<close>, no outputs: the length is 3 and the
  item at 1 is \<^verbatim>\<open>([3,4],[3,4])\<close>.
\<close>

theorem getitem_without_outputs_witness:
  "MamoDataset_init (Some [[1, 2], [3, 4], [5, 6 :: int]]) None =
     Inr \<lparr>self_input_data = [[1, 2], [3, 4], [5, 6]], self_output_data = None\<rparr>
   \<and> fst (MamoDataset_len
         \<lparr>self_input_data = [[1, 2], [3, 4], [5, 6 :: int]], self_output_data = None\<rparr>) = 3
   \<and> fst (MamoDataset_getitem
         \<lparr>self_input_data = [[1, 2], [3, 4], [5, 6 :: int]], self_output_data = None\<rparr> 1) =
       Inr ([3, 4], [3, 4])"
proof -
  let ?inputs = "[[1, 2], [3, 4], [5, 6 :: int]]"
  from getitem_without_outputs [of ?inputs] obtain d where
    made: "MamoDataset_init (Some ?inputs) None = Inr d" and
    size: "fst (MamoDataset_len d) = length ?inputs" and
    item: "\<forall>i. 0 \<le> i \<and> i < int (length ?inputs) \<longrightarrow>
             fst (MamoDataset_getitem d i) = Inr (?inputs ! nat i, ?inputs ! nat i)"
    by blast
  from made have d: "d = \<lparr>self_input_data = ?inputs, self_output_data = None\<rparr>"
    by (simp add: MamoDataset_init_def from_numpy_def)
  from item have "fst (MamoDataset_getitem d 1) = Inr (?inputs ! nat 1, ?inputs ! nat 1)"
    by simp
  then have "fst (MamoDataset_getitem d 1) = Inr ([3, 4], [3, 4])"
    by simp
  with made size show ?thesis
    unfolding d by simp
qed

text \<open>
  C2. A dataset constructed from an input array of \<open>N\<close> samples and an output array of
  \<open>N\<close> samples has length \<open>N\<close>, and for every integer \<open>i\<close> with \<open>0 \<le> i < N\<close> the item
  at \<open>i\<close> is the pair \<open>(inputs[i], outputs[i])\<close>.
\<close>

theorem getitem_with_outputs:
  "length outputs = length inputs \<Longrightarrow>
   \<exists>d. MamoDataset_init (Some inputs) (Some outputs) = Inr d
     \<and> fst (MamoDataset_len d) = length inputs
     \<and> (\<forall>i. 0 \<le> i \<and> i < int (length inputs) \<longrightarrow>
           fst (MamoDataset_getitem d i) = Inr (inputs ! nat i, outputs ! nat i))"
  by (simp add: MamoDataset_init_def MamoDataset_len_def MamoDataset_getitem_def
      from_numpy_def tensor_getitem_nonneg)

text \<open>
  The scenario \<^verbatim>\<open>inputs = [[1,2],[3,4]]\<close>, \<^verbatim>\<open>outputs = [[0],[1]]\<close>: the items are
  \<^verbatim>\<open>([1,2],[0])\<close> and \<^verbatim>\<open>([3,4],[1])\<close>.
\<close>

theorem getitem_with_outputs_witness:
  "MamoDataset_init (Some [[1, 2], [3, 4 :: int]]) (Some [[0], [1]]) =
     Inr \<lparr>self_input_data = [[1, 2], [3, 4]], self_output_data = Some [[0], [1]]\<rparr>
   \<and> fst (MamoDataset_len
         \<lparr>self_input_data = [[1, 2], [3, 4 :: int]], self_output_data = Some [[0], [1]]\<rparr>) = 2
   \<and> fst (MamoDataset_getitem
         \<lparr>self_input_data = [[1, 2], [3, 4 :: int]], self_output_data = Some [[0], [1]]\<rparr> 0) =
       Inr ([1, 2], [0])
   \<and> fst (MamoDataset_getitem
         \<lparr>self_input_data = [[1, 2], [3, 4 :: int]], self_output_data = Some [[0], [1]]\<rparr> 1) =
       Inr ([3, 4], [1])"
proof -
  let ?inputs = "[[1, 2], [3, 4 :: int]]"
  let ?outputs = "[[0], [1 :: int]]"
  have same: "length ?outputs = length ?inputs"
    by simp
  from getitem_with_outputs [OF same] obtain d where
    made: "MamoDataset_init (Some ?inputs) (Some ?outputs) = Inr d" and
    size: "fst (MamoDataset_len d) = length ?inputs" and
    item: "\<forall>i. 0 \<le> i \<and> i < int (length ?inputs) \<longrightarrow>
             fst (MamoDataset_getitem d i) = Inr (?inputs ! nat i, ?outputs ! nat i)"
    by blast
  from made have d: "d = \<lparr>self_input_data = ?inputs, self_output_data = Some ?outputs\<rparr>"
    by (simp add: MamoDataset_init_def from_numpy_def)
  from item have "fst (MamoDataset_getitem d 0) = Inr (?inputs ! nat 0, ?outputs ! nat 0)"
    by simp
  then have first: "fst (MamoDataset_getitem d 0) = Inr ([1, 2], [0])"
    by simp
  from item have "fst (MamoDataset_getitem d 1) = Inr (?inputs ! nat 1, ?outputs ! nat 1)"
    by simp
  then have second: "fst (MamoDataset_getitem d 1) = Inr ([3, 4], [1])"
    by simp
  from made size first second show ?thesis
    unfolding d by simp
qed

section \<open>Lookup out of range\<close>

text \<open>
  C3, as stated: every integer index with \<open>index < 0\<close> or \<open>index \<ge> size\<close> raises
  \<^verbatim>\<open>IndexError\<close>. The method does no range check of its own and hands the index to the
  tensor. The tensor counts a negative index from the end: on a dataset of two samples
  the index \<open>-1\<close> returns the last pair. And the tensor takes 64-bit indices: on the same
  dataset the index \<open>2\<^sup>6\<^sup>3\<close> raises the overflow \<^verbatim>\<open>ValueError\<close>, not \<^verbatim>\<open>IndexError\<close>.
\<close>

theorem getitem_negative_index_counterexample:
  "MamoDataset_init (Some [[1, 2], [3, 4 :: int]]) None =
     Inr \<lparr>self_input_data = [[1, 2], [3, 4]], self_output_data = None\<rparr>
   \<and> (-1 :: int) < 0
   \<and> fst (MamoDataset_getitem
         \<lparr>self_input_data = [[1, 2], [3, 4 :: int]], self_output_data = None\<rparr> (-1)) =
       Inr ([3, 4], [3, 4])
   \<and> fst (MamoDataset_getitem
         \<lparr>self_input_data = [[1, 2], [3, 4 :: int]], self_output_data = None\<rparr> (-1)) \<noteq>
       Inl IndexError
   \<and> int (fst (MamoDataset_len
         \<lparr>self_input_data = [[1, 2], [3, 4 :: int]], self_output_data = None\<rparr>)) \<le>
       9223372036854775808
   \<and> fst (MamoDataset_getitem
         \<lparr>self_input_data = [[1, 2], [3, 4 :: int]], self_output_data = None\<rparr>
         9223372036854775808) =
       Inl (ValueError ''Overflow when unpacking long long'')
   \<and> fst (MamoDataset_getitem
         \<lparr>self_input_data = [[1, 2], [3, 4 :: int]], self_output_data = None\<rparr>
         9223372036854775808) \<noteq>
       Inl IndexError"
  by (simp add: MamoDataset_init_def MamoDataset_len_def MamoDataset_getitem_def
      from_numpy_def tensor_getitem_def)

text \<open>
  C3, amended: for every dataset and every integer index of the 64-bit range
  (\<open>-2\<^sup>6\<^sup>3 \<le> index < 2\<^sup>6\<^sup>3\<close>) with \<open>index < - size\<close> or \<open>index \<ge> size\<close>, the lookup
  raises \<^verbatim>\<open>IndexError\<close>.
\<close>

theorem getitem_out_of_range_raises:
  "- (2 ^ 63) \<le> index \<Longrightarrow> index < 2 ^ 63 \<Longrightarrow>
   index < - int (fst (MamoDataset_len self)) \<or> int (fst (MamoDataset_len self)) \<le> index \<Longrightarrow>
   fst (MamoDataset_getitem self index) = Inl IndexError"
  by (simp add: MamoDataset_len_def MamoDataset_getitem_def tensor_getitem_outside)

text \<open>
  On a dataset of two samples, the indices 2 and \<open>-3\<close> both raise, and so do the two
  ends of the 64-bit range, \<open>2\<^sup>6\<^sup>3 - 1\<close> and \<open>-2\<^sup>6\<^sup>3\<close>.
\<close>

theorem getitem_out_of_range_raises_witness:
  "fst (MamoDataset_getitem
         \<lparr>self_input_data = [[1, 2], [3, 4 :: int]], self_output_data = None\<rparr> 2) =
     Inl IndexError
   \<and> fst (MamoDataset_getitem
         \<lparr>self_input_data = [[1, 2], [3, 4 :: int]], self_output_data = None\<rparr> (-3)) =
     Inl IndexError
   \<and> fst (MamoDataset_getitem
         \<lparr>self_input_data = [[1, 2], [3, 4 :: int]], self_output_data = None\<rparr>
         9223372036854775807) =
     Inl IndexError
   \<and> fst (MamoDataset_getitem
         \<lparr>self_input_data = [[1, 2], [3, 4 :: int]], self_output_data = None\<rparr>
         (-9223372036854775808)) =
     Inl IndexError"
proof -
  let ?d = "\<lparr>self_input_data = [[1, 2], [3, 4 :: int]], self_output_data = None\<rparr>"
  have size: "fst (MamoDataset_len ?d) = 2"
    by (simp add: MamoDataset_len_def)
  have fits: "- (2 ^ 63) \<le> (2 :: int)" "(2 :: int) < 2 ^ 63"
    "- (2 ^ 63) \<le> (-3 :: int)" "(-3 :: int) < 2 ^ 63"
    "- (2 ^ 63) \<le> (9223372036854775807 :: int)" "(9223372036854775807 :: int) < 2 ^ 63"
    "- (2 ^ 63) \<le> (-9223372036854775808 :: int)" "(-9223372036854775808 :: int) < 2 ^ 63"
    by simp_all
  have above: "2 < - int (fst (MamoDataset_len ?d)) \<or> int (fst (MamoDataset_len ?d)) \<le> 2"
    unfolding size by simp
  have below: "-3 < - int (fst (MamoDataset_len ?d)) \<or> int (fst (MamoDataset_len ?d)) \<le> -3"
    unfolding size by simp
  have top: "9223372036854775807 < - int (fst (MamoDataset_len ?d))
      \<or> int (fst (MamoDataset_len ?d)) \<le> 9223372036854775807"
    unfolding size by simp
  have bottom: "-9223372036854775808 < - int (fst (MamoDataset_len ?d))
      \<or> int (fst (MamoDataset_len ?d)) \<le> -9223372036854775808"
    unfolding size by simp
  from getitem_out_of_range_raises [OF fits(1) fits(2) above]
    getitem_out_of_range_raises [OF fits(3) fits(4) below]
    getitem_out_of_range_raises [OF fits(5) fits(6) top]
    getitem_out_of_range_raises [OF fits(7) fits(8) bottom]
  show ?thesis
    by simp
qed

section \<open>Construction errors\<close>

text \<open>
  C4. For an input array of length \<open>N\<close> and an output array of length \<open>M \<noteq> N\<close>, the
  constructor raises \<^verbatim>\<open>ValueError\<close>, so no object is produced.
\<close>

theorem init_length_mismatch_raises:
  "length outputs \<noteq> length inputs \<Longrightarrow>
   MamoDataset_init (Some inputs) (Some outputs) =
     Inl (ValueError
       ''The length of the input data must match the length of the output data!'')"
  by (auto simp add: MamoDataset_init_def)

text \<open>
  The scenario \<^verbatim>\<open>inputs = [[1,2],[3,4]]\<close>, \<^verbatim>\<open>outputs = [[0]]\<close>: construction raises.
\<close>

theorem init_length_mismatch_raises_witness:
  "MamoDataset_init (Some [[1, 2], [3, 4 :: int]]) (Some [[0]]) =
     Inl (ValueError
       ''The length of the input data must match the length of the output data!'')"
proof -
  have differ: "length [[0 :: int]] \<noteq> length [[1, 2], [3, 4 :: int]]"
    by simp
  from init_length_mismatch_raises [OF differ] show ?thesis .
qed

text \<open>
  C5. Constructing with an absent input (\<^verbatim>\<open>input_data = None\<close>) raises \<^verbatim>\<open>ValueError\<close>
  whatever the output argument is, so no object is produced.
\<close>

theorem init_absent_input_raises:
  "MamoDataset_init None output_data =
     Inl (ValueError ''The input data is None, please give a valid input data.'')"
  by (simp add: MamoDataset_init_def)

section \<open>Lookup has no effect on the object\<close>

text \<open>
  C6. For every dataset and every integer index, in range or not, a second lookup at the
  same index, made on the object the first lookup left, gives the result of the first;
  and the first lookup leaves the object as it was.
\<close>

theorem getitem_repeatable:
  "fst (MamoDataset_getitem (snd (MamoDataset_getitem self index)) index) =
     fst (MamoDataset_getitem self index)
   \<and> snd (MamoDataset_getitem self index) = self"
  by (simp add: snd_getitem)

text \<open>
  C7. A lookup that raises leaves the object unchanged: afterwards the length and the
  item at every index are what they were before the failed call.
\<close>

theorem failed_getitem_keeps_state:
  "fst (MamoDataset_getitem self index) = Inl e \<Longrightarrow>
   snd (MamoDataset_getitem self index) = self
   \<and> fst (MamoDataset_len (snd (MamoDataset_getitem self index))) = fst (MamoDataset_len self)
   \<and> fst (MamoDataset_getitem (snd (MamoDataset_getitem self index)) j) =
       fst (MamoDataset_getitem self j)"
  by (simp add: snd_getitem)

text \<open>
  On the dataset of the two-sample scenario, the lookup at 5 raises; afterwards the
  length is still 2 and the item at 1 is still \<^verbatim>\<open>([3,4],[1])\<close>.
\<close>

theorem failed_getitem_keeps_state_witness:
  "fst (MamoDataset_getitem
         \<lparr>self_input_data = [[1, 2], [3, 4 :: int]], self_output_data = Some [[0], [1]]\<rparr> 5) =
     Inl IndexError
   \<and> snd (MamoDataset_getitem
         \<lparr>self_input_data = [[1, 2], [3, 4 :: int]], self_output_data = Some [[0], [1]]\<rparr> 5) =
     \<lparr>self_input_data = [[1, 2], [3, 4]], self_output_data = Some [[0], [1]]\<rparr>
   \<and> fst (MamoDataset_len (snd (MamoDataset_getitem
         \<lparr>self_input_data = [[1, 2], [3, 4 :: int]], self_output_data = Some [[0], [1]]\<rparr> 5))) = 2
   \<and> fst (MamoDataset_getitem (snd (MamoDataset_getitem
         \<lparr>self_input_data = [[1, 2], [3, 4 :: int]], self_output_data = Some [[0], [1]]\<rparr> 5)) 1) =
     Inr ([3, 4], [1])"
proof -
  let ?d = "\<lparr>self_input_data = [[1, 2], [3, 4 :: int]], self_output_data = Some [[0], [1]]\<rparr>"
  have failed: "fst (MamoDataset_getitem ?d 5) = Inl IndexError"
    by (simp add: MamoDataset_getitem_def tensor_getitem_def)
  have size: "fst (MamoDataset_len ?d) = 2"
    by (simp add: MamoDataset_len_def)
  have item: "fst (MamoDataset_getitem ?d 1) = Inr ([3, 4], [1])"
    by (simp add: MamoDataset_getitem_def tensor_getitem_def)
  from failed_getitem_keeps_state [OF failed, of 1] failed size item show ?thesis
    by simp
qed

section \<open>The length invariant\<close>

text \<open>
  C8. For every successfully constructed dataset with outputs, the stored outputs have
  the length of the stored inputs at construction, and after every sequence of calls of
  the two methods: no call changes the stored arrays.
\<close>

theorem outputs_match_lifetime:
  "MamoDataset_init input_data (Some outputs) = Inr d \<Longrightarrow>
   self_output_data d = Some outputs
   \<and> length outputs = length (self_input_data d)
   \<and> outputs_match d
   \<and> outputs_match (lifetime d calls)
   \<and> self_input_data (lifetime d calls) = self_input_data d
   \<and> self_output_data (lifetime d calls) = self_output_data d"
proof -
  assume made: "MamoDataset_init input_data (Some outputs) = Inr d"
  then obtain inputs where given: "input_data = Some inputs"
    by (cases input_data) (simp_all add: MamoDataset_init_def)
  from made given have fields:
    "self_input_data d = inputs" "self_output_data d = Some outputs"
    "length outputs = length inputs"
    using init_Some_fields [of inputs "Some outputs" d] by simp_all
  then have "outputs_match d"
    by (simp add: outputs_match_def)
  with fields show ?thesis
    by (simp add: lifetime_same)
qed

text \<open>
  The two-sample scenario, followed by four calls (one of them a lookup that raises).
\<close>

theorem outputs_match_lifetime_witness:
  "MamoDataset_init (Some [[1, 2], [3, 4 :: int]]) (Some [[0], [1]]) =
     Inr \<lparr>self_input_data = [[1, 2], [3, 4]], self_output_data = Some [[0], [1]]\<rparr>
   \<and> outputs_match (lifetime
         \<lparr>self_input_data = [[1, 2], [3, 4 :: int]], self_output_data = Some [[0], [1]]\<rparr>
         [Call_getitem 0, Call_len, Call_getitem 7, Call_getitem (-1)])
   \<and> self_input_data (lifetime
         \<lparr>self_input_data = [[1, 2], [3, 4 :: int]], self_output_data = Some [[0], [1]]\<rparr>
         [Call_getitem 0, Call_len, Call_getitem 7, Call_getitem (-1)]) = [[1, 2], [3, 4]]
   \<and> self_output_data (lifetime
         \<lparr>self_input_data = [[1, 2], [3, 4 :: int]], self_output_data = Some [[0], [1]]\<rparr>
         [Call_getitem 0, Call_len, Call_getitem 7, Call_getitem (-1)]) = Some [[0], [1]]"
proof -
  let ?d = "\<lparr>self_input_data = [[1, 2], [3, 4 :: int]], self_output_data = Some [[0], [1]]\<rparr>"
  have made: "MamoDataset_init (Some [[1, 2], [3, 4 :: int]]) (Some [[0], [1]]) = Inr ?d"
    by (simp add: MamoDataset_init_def from_numpy_def)
  from outputs_match_lifetime [OF made, of "[Call_getitem 0, Call_len, Call_getitem 7, Call_getitem (-1)]"] made
  show ?thesis
    by simp
qed

section \<open>Negative indices\<close>

text \<open>
  C9. On a dataset of \<open>N \<ge> 1\<close> samples, a lookup at an integer \<open>i\<close> with
  \<open>-N \<le> i \<le> -1\<close> does not raise: it returns the pair at position \<open>N + i\<close>, that is
  \<open>(inputs[N+i], inputs[N+i])\<close> without outputs and \<open>(inputs[N+i], outputs[N+i])\<close>
  with outputs.
\<close>

theorem getitem_negative_wraps:
  "MamoDataset_init (Some inputs) output_data = Inr d \<Longrightarrow>
   - int (length inputs) \<le> index \<Longrightarrow> index \<le> -1 \<Longrightarrow>
   fst (MamoDataset_getitem d index) =
     Inr (inputs ! nat (int (length inputs) + index),
          (case output_data of
             None \<Rightarrow> inputs ! nat (int (length inputs) + index)
           | Some outputs \<Rightarrow> outputs ! nat (int (length inputs) + index)))"
proof -
  assume made: "MamoDataset_init (Some inputs) output_data = Inr d"
    and lower: "- int (length inputs) \<le> index" and upper: "index \<le> -1"
  from made have fields: "self_input_data d = inputs" "self_output_data d = output_data"
    and same: "\<forall>outputs. output_data = Some outputs \<longrightarrow> length outputs = length inputs"
    using init_Some_fields [of inputs output_data d] by simp_all
  from upper have neg: "index < 0"
    by simp
  have x: "tensor_getitem inputs index = Inr (inputs ! nat (int (length inputs) + index))"
    using lower neg by (rule tensor_getitem_negative)
  show ?thesis
  proof (cases output_data)
    case None
    with fields x show ?thesis
      by (simp add: MamoDataset_getitem_def)
  next
    case (Some outputs)
    with same have len: "length outputs = length inputs"
      by simp
    with lower have "- int (length outputs) \<le> index"
      by simp
    then have "tensor_getitem outputs index = Inr (outputs ! nat (int (length outputs) + index))"
      using neg by (rule tensor_getitem_negative)
    with Some fields x len show ?thesis
      by (simp add: MamoDataset_getitem_def)
  qed
qed

text \<open>
  Without outputs, the index \<open>-1\<close> on three samples gives the last sample twice; with
  outputs, the index \<open>-2\<close> on two samples gives the first pair.
\<close>

theorem getitem_negative_wraps_witness:
  "fst (MamoDataset_getitem
         \<lparr>self_input_data = [[1, 2], [3, 4], [5, 6 :: int]], self_output_data = None\<rparr> (-1)) =
     Inr ([5, 6], [5, 6])
   \<and> fst (MamoDataset_getitem
         \<lparr>self_input_data = [[1, 2], [3, 4 :: int]], self_output_data = Some [[0], [1]]\<rparr> (-2)) =
     Inr ([1, 2], [0])"
proof -
  let ?a = "[[1, 2], [3, 4], [5, 6 :: int]]"
  let ?b = "[[1, 2], [3, 4 :: int]]"
  let ?o = "[[0], [1 :: int]]"
  have made_a: "MamoDataset_init (Some ?a) None =
      Inr \<lparr>self_input_data = ?a, self_output_data = None\<rparr>"
    by (simp add: MamoDataset_init_def from_numpy_def)
  have made_b: "MamoDataset_init (Some ?b) (Some ?o) =
      Inr \<lparr>self_input_data = ?b, self_output_data = Some ?o\<rparr>"
    by (simp add: MamoDataset_init_def from_numpy_def)
  have range_a: "- int (length ?a) \<le> -1" "(-1 :: int) \<le> -1"
    by simp_all
  have range_b: "- int (length ?b) \<le> -2" "(-2 :: int) \<le> -1"
    by simp_all
  from getitem_negative_wraps [OF made_a range_a] getitem_negative_wraps [OF made_b range_b] show ?thesis
    by simp
qed

section \<open>The empty dataset\<close>



end
